theory Spec2Isabelle
  imports Complex_Main
begin

section \<open>Python values\<close>

text \<open>
  Python floats are modelled as reals and Python ints as unbounded integers. Every
  exception the source raises is a value: all of them are \<open>ValueError\<close>s, told apart by
  their message (the static part of the message where the source formats a number into it).
\<close>

datatype error =
  ValueError string | KeyError string | ZeroDivisionError | NotImplementedError string

text \<open>\<open>int(x)\<close> on a float truncates towards zero.\<close>

definition py_int :: "real \<Rightarrow> int" where
  "py_int x = (if 0 \<le> x then \<lfloor>x\<rfloor> else \<lceil>x\<rceil>)"

text \<open>\<open>round(x)\<close> rounds to the nearest integer, a tie going to the even neighbour.\<close>

definition py_round :: "real \<Rightarrow> int" where
  "py_round x =
     (let f = \<lfloor>x\<rfloor>; d = x - of_int f
      in if d < 1 / 2 then f
         else if 1 / 2 < d then f + 1
         else if even f then f else f + 1)"

text \<open>
  The truth value of an \<open>Optional[int]\<close> in a condition: \<open>None\<close> and \<open>0\<close> are both false.
\<close>

definition truthy :: "int option \<Rightarrow> bool" where
  "truthy d = (case d of None \<Rightarrow> False | Some v \<Rightarrow> v \<noteq> 0)"

section \<open>The practice objects (practices/practice.py)\<close>

record RegistrationDates =
  latest_registration :: real
  earliest_registration :: real
  median_registration :: real

definition RegistrationDates_post_init :: "RegistrationDates \<Rightarrow> error + RegistrationDates" where
  "RegistrationDates_post_init r =
     (if \<not> (earliest_registration r \<le> median_registration r
              \<and> median_registration r \<le> latest_registration r)
      then Inl (ValueError ''Registration dates must be ordered: earliest <= median <= latest'')
      else Inr r)"

record TransferParameters =
  transfer_probability :: real
  minimum_gap :: real
  median_gap :: real
  maximum_gap :: real

definition TransferParameters_post_init :: "TransferParameters \<Rightarrow> error + TransferParameters" where
  "TransferParameters_post_init t =
     (if \<not> (0 \<le> transfer_probability t \<and> transfer_probability t \<le> 1)
      then Inl (ValueError ''Transfer probability must be between 0 and 1'')
      else if \<not> (minimum_gap t \<le> median_gap t \<and> median_gap t \<le> maximum_gap t)
      then Inl (ValueError ''Transfer gaps must be ordered: minimum <= median <= maximum'')
      else if minimum_gap t < 0
      then Inl (ValueError ''Transfer gaps cannot be negative'')
      else Inr t)"

record BirthYearParameters =
  earliest_birth_year :: real
  median_birth_year :: real
  latest_birth_year :: real

definition BirthYearParameters_post_init :: "BirthYearParameters \<Rightarrow> error + BirthYearParameters" where
  "BirthYearParameters_post_init b =
     (if \<not> (earliest_birth_year b \<le> median_birth_year b
              \<and> median_birth_year b \<le> latest_birth_year b)
      then Inl (ValueError ''Birth years must be ordered: earliest <= median <= latest'')
      else if \<not> (1800 \<le> earliest_birth_year b \<and> earliest_birth_year b \<le> 2024)
      then Inl (ValueError ''Birth years must be realistic (between 1800 and 2024)'')
      else Inr b)"

text \<open>
  \<open>ethnicity_proportions\<close> is a dict; its insertion order is kept (the patient factory
  walks it in that order), so it is an association list.
\<close>

record Practice =
  practice_id :: int
  patient_count :: int
  male_proportion :: real
  registration_dates :: RegistrationDates
  transfer_params :: TransferParameters
  birth_years :: BirthYearParameters
  ethnicity_proportions :: "(string \<times> real) list"

definition required_ethnicities :: "string set" where
  "required_ethnicities =
     {''south_asian'', ''black'', ''other'', ''mixed'', ''unknown'', ''white''}"

definition Practice_post_init :: "Practice \<Rightarrow> error + Practice" where
  "Practice_post_init p =
     (if practice_id p \<le> 0
      then Inl (ValueError ''Practice ID must be a positive integer'')
      else if patient_count p \<le> 0
      then Inl (ValueError ''Patient count must be a positive integer'')
      else if \<not> (0 \<le> male_proportion p \<and> male_proportion p \<le> 1)
      then Inl (ValueError ''Male proportion must be between 0 and 1'')
      else if \<not> list_all (\<lambda>prop. 0 \<le> prop \<and> prop \<le> 1) (map snd (ethnicity_proportions p))
      then Inl (ValueError ''Ethnicity proportions must be between 0 and 1'')
      else if \<not> py_int (sum_list (map snd (ethnicity_proportions p))) = 1
      then Inl (ValueError ''Ethnicity proportions must sum to 1'')
      else if set (map fst (ethnicity_proportions p)) \<noteq> required_ethnicities
      then Inl (ValueError ''Ethnicity proportions must contain exactly these keys'')
      else Inr p)"

section \<open>The patient object (patients/patient.py, patients/patient\_enums.py)\<close>

datatype Sex = MALE | FEMALE

datatype Ethnicity = WHITE | SOUTH_ASIAN | BLACK | MIXED | OTHER | UNKNOWN

text \<open>All dates are days since 1960-01-01.\<close>

record Patient =
  patient_id :: int
  patient_practice_id :: int
  birth_date :: int
  registration_date :: int
  sex :: Sex
  ethnicity :: Ethnicity
  transfer_date :: "int option"
  death_date :: "int option"

text \<open>
  \<open>Patient.__post_init__\<close>. The two \<open>isinstance\<close> checks at its end cannot fail on a
  value of the types \<open>Sex\<close> and \<open>Ethnicity\<close>, which is all the record can hold.
\<close>

definition Patient_post_init :: "Patient \<Rightarrow> error + Patient" where
  "Patient_post_init p =
     (if birth_date p \<ge> registration_date p
      then Inl (ValueError ''Birth date must be before registration date'')
      else if truthy (transfer_date p) \<and> the (transfer_date p) \<le> registration_date p
      then Inl (ValueError ''Transfer date must be after registration date'')
      else if truthy (death_date p) \<and> the (death_date p) \<le> birth_date p
      then Inl (ValueError ''Death date must be after birth date'')
      else if truthy (death_date p) \<and> truthy (transfer_date p)
              \<and> the (death_date p) \<le> the (transfer_date p)
      then Inl (ValueError ''Death date must be before transfer date'')
      else Inr p)"

section \<open>The random source\<close>

text \<open>
  Every sampling call of the source goes to the process-wide generator of numpy (scipy's
  \<open>rvs\<close> draws from the same one). The library is not part of the repository, so its calls
  are parameters: each takes its arguments and the generator's state, and returns the value
  drawn and the next state. \<open>np_random_seed\<close> is the state that \<open>np.random.seed(seed)\<close>
  installs.
\<close>

record 'g random_source =
  np_random_seed :: "int \<Rightarrow> 'g"
  np_random_random :: "'g \<Rightarrow> real \<times> 'g"
  np_random_uniform :: "real \<Rightarrow> real \<Rightarrow> 'g \<Rightarrow> real \<times> 'g"
  np_random_normal :: "real \<Rightarrow> real \<Rightarrow> 'g \<Rightarrow> real \<times> 'g"
  np_random_exponential :: "real \<Rightarrow> 'g \<Rightarrow> real \<times> 'g"
  np_random_multivariate_normal :: "real list \<Rightarrow> real list list \<Rightarrow> 'g \<Rightarrow> real list \<times> 'g"
  stats_chi2_rvs :: "real \<Rightarrow> 'g \<Rightarrow> real \<times> 'g"
  stats_beta_rvs :: "real \<Rightarrow> real \<Rightarrow> 'g \<Rightarrow> real \<times> 'g"

text \<open>
  A scripted source, for running the generators on chosen draws: its state is the list of
  the values still to be returned, and every call returns the next one (a vector draw
  returns as many as the mean vector is long).
\<close>

definition next_value :: "real list \<Rightarrow> real \<times> real list" where
  "next_value g = (case g of [] \<Rightarrow> (0, []) | x # xs \<Rightarrow> (x, xs))"

definition scripted :: "real list random_source" where
  "scripted =
     \<lparr>np_random_seed = (\<lambda>seed. []),
      np_random_random = next_value,
      np_random_uniform = (\<lambda>low high. next_value),
      np_random_normal = (\<lambda>loc scale. next_value),
      np_random_exponential = (\<lambda>scale. next_value),
      np_random_multivariate_normal =
        (\<lambda>mean cov g. (take (length mean) g, drop (length mean) g)),
      stats_chi2_rvs = (\<lambda>df. next_value),
      stats_beta_rvs = (\<lambda>a b. next_value)\<rparr>"

section \<open>The configuration (practices/factories/config.py, default\_config.py)\<close>

record EthnicityConfig =
  correlation_matrix :: "real list list"
  means :: "real list"
  standard_deviations :: "real list"
  ethnicity_names :: "string list"

record DemographicConfig =
  male_proportion_mean :: real
  male_proportion_sd :: real
  min_yob_mean :: real
  min_yob_sd :: real
  med_yob_mean :: real
  med_yob_sd :: real
  max_yob_mean :: real
  max_yob_sd :: real

record RegistrationConfig =
  last_registration_date :: int
  min_registration_offset :: real
  min_registration_sd :: real
  med_registration_offset :: real
  med_registration_sd :: real
  transfer_probability_mean :: real
  transfer_probability_sd :: real
  min_transfer_gap :: real
  min_transfer_gap_sd :: real
  med_transfer_gap_mean :: real
  med_transfer_gap_sd :: real
  max_transfer_gap_mean :: real
  max_transfer_gap_sd :: real

record PracticeConfig =
  ethnicity_config :: EthnicityConfig
  demographics :: DemographicConfig
  registration :: RegistrationConfig
  practice_size_df1 :: int
  practice_size_df2 :: int
  practice_size_multiplier :: real

definition get_default_config :: PracticeConfig where
  "get_default_config =
     \<lparr>ethnicity_config =
        \<lparr>correlation_matrix =
           [[1, 0.78, 0.70, 0.73, 0.09],
            [0.78, 1, 0.71, 0.74, 0.04],
            [0.70, 0.71, 1, 0.60, 0.04],
            [0.73, 0.74, 0.60, 1, 0.009],
            [0.09, 0.04, 0.04, 0.009, 1]],
         means = [-5.3, -5.6, -5.7, -6.3, -5.2],
         standard_deviations = [1.7, 1.7, 1.3, 1.1, 1.7],
         ethnicity_names = [''south_asian'', ''black'', ''other'', ''mixed'', ''unknown'']\<rparr>,
      demographics =
        \<lparr>male_proportion_mean = 0.4, male_proportion_sd = 0.05,
         min_yob_mean = 1910, min_yob_sd = 5,
         med_yob_mean = 1943, med_yob_sd = 5,
         max_yob_mean = 1980, max_yob_sd = 5\<rparr>,
      registration =
        \<lparr>last_registration_date = 20926,
         min_registration_offset = -4890, min_registration_sd = 5000,
         med_registration_offset = 11000, med_registration_sd = 2400,
         transfer_probability_mean = 0.2, transfer_probability_sd = 0.075,
         min_transfer_gap = 400, min_transfer_gap_sd = 20,
         med_transfer_gap_mean = 7000, med_transfer_gap_sd = 2000,
         max_transfer_gap_mean = 22400, max_transfer_gap_sd = 8000\<rparr>,
      practice_size_df1 = 30,
      practice_size_df2 = 20,
      practice_size_multiplier = 1000\<rparr>"

section \<open>The practice factory (practices/factories/standard.py)\<close>

text \<open>\<open>np.clip(x, a_min, a_max)\<close>, a bound of \<open>None\<close> being absent.\<close>

definition np_clip :: "real \<Rightarrow> real option \<Rightarrow> real option \<Rightarrow> real" where
  "np_clip x a_min a_max =
     (let y = (case a_min of None \<Rightarrow> x | Some lo \<Rightarrow> max x lo)
      in case a_max of None \<Rightarrow> y | Some hi \<Rightarrow> min y hi)"

text \<open>\<open>np.round(x, decimals)\<close> and \<open>round(x, ndigits)\<close>, ties to even.\<close>

definition np_round :: "real \<Rightarrow> nat \<Rightarrow> real" where
  "np_round x decimals = of_int (py_round (x * 10 ^ decimals)) / 10 ^ decimals"

definition np_outer :: "real list \<Rightarrow> real list \<Rightarrow> real list list" where
  "np_outer xs ys = map (\<lambda>x. map (\<lambda>y. x * y) ys) xs"

definition logistic :: "real \<Rightarrow> real" where
  "logistic x = 1 / (1 + exp (- x))"

text \<open>
  The factory object is its configuration. \<open>__init__\<close> seeds the process-wide generator
  whatever its state was, then loads the configuration.
\<close>

definition load_config :: "string option \<Rightarrow> error + PracticeConfig" where
  "load_config config_path =
     (case config_path of
        None \<Rightarrow> Inr get_default_config
      | Some path \<Rightarrow> Inl (NotImplementedError ''Config file parsing not implemented''))"

definition StandardPracticeFactory_init ::
  "'g random_source \<Rightarrow> int \<Rightarrow> string option \<Rightarrow> 'g \<Rightarrow> (error + PracticeConfig) \<times> 'g" where
  "StandardPracticeFactory_init R seed config_path g =
     (let g1 = np_random_seed R seed in (load_config config_path, g1))"

definition generate_ethnicity_proportions ::
  "'g random_source \<Rightarrow> PracticeConfig \<Rightarrow> 'g \<Rightarrow> (error + (string \<times> real) list) \<times> 'g" where
  "generate_ethnicity_proportions R config g =
     (let cfg = ethnicity_config config;
          covariance_matrix =
            map2 (map2 (\<lambda>a b. a * b))
              (np_outer (standard_deviations cfg) (standard_deviations cfg))
              (correlation_matrix cfg);
          (normal_variates, g1) = np_random_multivariate_normal R (means cfg) covariance_matrix g;
          names = [''south_asian'', ''black'', ''other'', ''mixed'', ''unknown''];
          raw_probs = map_of (zip names (map logistic normal_variates))
      in case (raw_probs ''unknown'', raw_probs ''south_asian'', raw_probs ''black'',
               raw_probs ''mixed'', raw_probs ''other'') of
           (Some unknown, Some south_asian, Some black, Some mixed, Some other) \<Rightarrow>
             (let effective_total = 1 - unknown;
                  f_south_asian = south_asian / effective_total;
                  f_black = black / ((1 - south_asian) * effective_total);
                  f_mixed = mixed / ((1 - black) * (1 - south_asian) * effective_total);
                  f_other = other / ((1 - mixed) * (1 - black) * (1 - south_asian) * effective_total);
                  f_white = (1 - f_south_asian - f_black - f_mixed - f_other) * (1 - unknown)
              in (Inr [(''unknown'', unknown), (''south_asian'', f_south_asian),
                       (''black'', f_black), (''mixed'', f_mixed), (''other'', f_other),
                       (''white'', f_white)], g1))
         | _ \<Rightarrow> (Inl (KeyError ''unknown''), g1))"

definition generate_practice_size ::
  "'g random_source \<Rightarrow> PracticeConfig \<Rightarrow> 'g \<Rightarrow> (error + int) \<times> 'g" where
  "generate_practice_size R config g =
     (if practice_size_df1 config \<le> 0 \<or> practice_size_df2 config \<le> 0
      then (Inl (ValueError ''Degrees of freedom must be positive''), g)
      else if practice_size_multiplier config \<le> 0
      then (Inl (ValueError ''Practice size multiplier must be positive''), g)
      else
        (let (n1, g1) = stats_chi2_rvs R (of_int (practice_size_df1 config)) g;
             (n2, g2) = stats_chi2_rvs R (of_int (practice_size_df2 config)) g1;
             n_patients =
               py_round (practice_size_multiplier config
                           * (n1 / of_int (practice_size_df1 config))
                           / (n2 / of_int (practice_size_df2 config)))
         in (Inr n_patients, g2)))"

definition generate_registration_dates ::
  "'g random_source \<Rightarrow> PracticeConfig \<Rightarrow> 'g \<Rightarrow> (error + RegistrationDates) \<times> 'g" where
  "generate_registration_dates R config g =
     (let reg_config = registration config
      in if list_ex (\<lambda>sd. sd \<le> 0) [min_registration_sd reg_config, med_registration_sd reg_config]
         then (Inl (ValueError ''All registration date standard deviations must be positive''), g)
         else
           (let (offset, g1) = np_random_exponential R 1500 g;
                latest = of_int (last_registration_date reg_config) - offset;
                (earliest, g2) =
                  np_random_normal R (min_registration_offset reg_config)
                    (min_registration_sd reg_config) g1;
                (m, g3) =
                  np_random_normal R (med_registration_offset reg_config)
                    (med_registration_sd reg_config) g2;
                median = np_clip m (Some (earliest + 100)) (Some (latest - 100))
            in (RegistrationDates_post_init
                  \<lparr>latest_registration = latest, earliest_registration = earliest,
                   median_registration = median\<rparr>, g3)))"

definition generate_demographics ::
  "'g random_source \<Rightarrow> PracticeConfig \<Rightarrow> 'g \<Rightarrow> (error + real) \<times> 'g" where
  "generate_demographics R config g =
     (let demo_config = demographics config
      in if \<not> (0 \<le> male_proportion_mean demo_config \<and> male_proportion_mean demo_config \<le> 1)
         then (Inl (ValueError ''Male proportion mean must be between 0 and 1''), g)
         else if male_proportion_sd demo_config \<le> 0
         then (Inl (ValueError ''Male proportion standard deviation must be positive''), g)
         else
           (let (x, g1) =
                  np_random_normal R (male_proportion_mean demo_config)
                    (male_proportion_sd demo_config) g
            in (Inr (np_clip x (Some 0) (Some 1)), g1)))"

definition generate_transfer_parameters ::
  "'g random_source \<Rightarrow> PracticeConfig \<Rightarrow> 'g \<Rightarrow> (error + TransferParameters) \<times> 'g" where
  "generate_transfer_parameters R config g =
     (let cfg = registration config
      in if \<not> (0 \<le> transfer_probability_mean cfg \<and> transfer_probability_mean cfg \<le> 1)
         then (Inl (ValueError ''Transfer probability mean must be between 0 and 1''), g)
         else if transfer_probability_sd cfg \<le> 0
         then (Inl (ValueError ''Transfer probability standard deviation must be positive''), g)
         else if list_ex (\<lambda>sd. sd \<le> 0)
                   [min_transfer_gap_sd cfg, med_transfer_gap_sd cfg, max_transfer_gap_sd cfg]
         then (Inl (ValueError ''All transfer gap standard deviations must be positive''), g)
         else if \<not> (min_transfer_gap cfg < med_transfer_gap_mean cfg
                      \<and> med_transfer_gap_mean cfg < max_transfer_gap_mean cfg)
         then (Inl (ValueError ''Transfer gap means must be properly ordered''), g)
         else
           (let (x0, g1) =
                  np_random_normal R (transfer_probability_mean cfg)
                    (transfer_probability_sd cfg) g;
                probability = np_clip x0 (Some 0) (Some 1);
                (x1, g2) = np_random_normal R 0 (min_transfer_gap_sd cfg) g1;
                minimum = np_clip (min_transfer_gap cfg + np_round x1 1) (Some 0) None;
                (x2, g3) =
                  np_random_normal R (med_transfer_gap_mean cfg) (med_transfer_gap_sd cfg) g2;
                median = np_clip x2 (Some (minimum + 100)) None;
                (x3, g4) =
                  np_random_normal R (max_transfer_gap_mean cfg) (max_transfer_gap_sd cfg) g3;
                maximum = np_clip x3 (Some (median + 100)) None
            in (TransferParameters_post_init
                  \<lparr>transfer_probability = probability, minimum_gap = minimum,
                   median_gap = median, maximum_gap = maximum\<rparr>, g4)))"

definition generate_birth_years ::
  "'g random_source \<Rightarrow> PracticeConfig \<Rightarrow> 'g \<Rightarrow> (error + BirthYearParameters) \<times> 'g" where
  "generate_birth_years R config g =
     (let cfg = demographics config
      in if list_ex (\<lambda>sd. sd \<le> 0) [min_yob_sd cfg, med_yob_sd cfg, max_yob_sd cfg]
         then (Inl (ValueError ''All birth year standard deviations must be positive''), g)
         else if \<not> (min_yob_mean cfg < med_yob_mean cfg \<and> med_yob_mean cfg < max_yob_mean cfg)
         then (Inl (ValueError ''Birth year means must be in chronological order''), g)
         else if \<not> (1800 \<le> min_yob_mean cfg \<and> min_yob_mean cfg \<le> 2024)
         then (Inl (ValueError ''Earliest birth year mean must be realistic (1800-2024)''), g)
         else
           (let (earliest, g1) = np_random_normal R (min_yob_mean cfg) (min_yob_sd cfg) g;
                (x1, g2) = np_random_normal R (med_yob_mean cfg) (med_yob_sd cfg) g1;
                median = np_clip x1 (Some (earliest + 5)) None;
                (x2, g3) = np_random_normal R (max_yob_mean cfg) (max_yob_sd cfg) g2;
                latest = np_clip x2 (Some (median + 5)) None
            in (BirthYearParameters_post_init
                  \<lparr>earliest_birth_year = np_round earliest 1,
                   median_birth_year = np_round median 1,
                   latest_birth_year = np_round latest 1\<rparr>, g3)))"

text \<open>
  \<open>create_practice\<close> runs the six generators in the source's order; an exception of one
  of them, or of the constructor of \<open>Practice\<close>, ends the call.
\<close>

definition create_practice ::
  "'g random_source \<Rightarrow> PracticeConfig \<Rightarrow> int \<Rightarrow> 'g \<Rightarrow> (error + Practice) \<times> 'g" where
  "create_practice R config pid g =
     (case generate_practice_size R config g of
        (Inl e, g1) \<Rightarrow> (Inl e, g1)
      | (Inr practice_size, g1) \<Rightarrow>
     (case generate_registration_dates R config g1 of
        (Inl e, g2) \<Rightarrow> (Inl e, g2)
      | (Inr reg_dates, g2) \<Rightarrow>
     (case generate_ethnicity_proportions R config g2 of
        (Inl e, g3) \<Rightarrow> (Inl e, g3)
      | (Inr ethnicity_props, g3) \<Rightarrow>
     (case generate_demographics R config g3 of
        (Inl e, g4) \<Rightarrow> (Inl e, g4)
      | (Inr male_prop, g4) \<Rightarrow>
     (case generate_transfer_parameters R config g4 of
        (Inl e, g5) \<Rightarrow> (Inl e, g5)
      | (Inr transfer, g5) \<Rightarrow>
     (case generate_birth_years R config g5 of
        (Inl e, g6) \<Rightarrow> (Inl e, g6)
      | (Inr years, g6) \<Rightarrow>
          (Practice_post_init
             \<lparr>practice_id = pid, patient_count = practice_size,
              male_proportion = male_prop, registration_dates = reg_dates,
              transfer_params = transfer, birth_years = years,
              ethnicity_proportions = ethnicity_props\<rparr>, g6)))))))"

text \<open>The list comprehension of \<open>create_practices\<close>, over the identifiers still to create.\<close>

fun create_practice_list ::
  "'g random_source \<Rightarrow> PracticeConfig \<Rightarrow> int list \<Rightarrow> 'g \<Rightarrow> (error + Practice list) \<times> 'g" where
  "create_practice_list R config [] g = (Inr [], g)"
| "create_practice_list R config (pid # pids) g =
     (case create_practice R config pid g of
        (Inl e, g1) \<Rightarrow> (Inl e, g1)
      | (Inr p, g1) \<Rightarrow>
          (case create_practice_list R config pids g1 of
             (Inl e, g2) \<Rightarrow> (Inl e, g2)
           | (Inr ps, g2) \<Rightarrow> (Inr (p # ps), g2)))"

definition create_practices ::
  "'g random_source \<Rightarrow> PracticeConfig \<Rightarrow> int \<Rightarrow> 'g \<Rightarrow> (error + Practice list) \<times> 'g" where
  "create_practices R config number_of_practices g =
     (if number_of_practices \<le> 0
      then (Inl (ValueError ''Number of practices must be positive''), g)
      else create_practice_list R config
             (map (\<lambda>i. i + 1) [0..number_of_practices - 1]) g)"

section \<open>The patient factory (patients/factory.py)\<close>

subsection \<open>Decimal strings\<close>

text \<open>
  \<open>str(n)\<close>, the format \<open>03d\<close> and \<open>int(s)\<close>, as the f-string of the patient identifier
  uses them. \<open>03d\<close> pads with zeros to three characters, the sign included.
\<close>

definition digit_char :: "nat \<Rightarrow> char" where
  "digit_char d = char_of (48 + d)"

definition digit_value :: "char \<Rightarrow> nat option" where
  "digit_value c =
     (let k = (of_char c :: nat) in if 48 \<le> k \<and> k \<le> 57 then Some (k - 48) else None)"

fun py_str_nat :: "nat \<Rightarrow> string" where
  "py_str_nat n =
     (if n < 10 then [digit_char n] else py_str_nat (n div 10) @ [digit_char (n mod 10)])"

declare py_str_nat.simps [simp del]

definition py_str :: "int \<Rightarrow> string" where
  "py_str n = (if n < 0 then CHR ''-'' # py_str_nat (nat (- n)) else py_str_nat (nat n))"

definition zero_pad :: "nat \<Rightarrow> string \<Rightarrow> string" where
  "zero_pad width s = replicate (width - length s) (CHR ''0'') @ s"

definition format_03d :: "int \<Rightarrow> string" where
  "format_03d n =
     (if n < 0 then CHR ''-'' # zero_pad 2 (py_str_nat (nat (- n)))
      else zero_pad 3 (py_str_nat (nat n)))"

fun parse_digits :: "string \<Rightarrow> nat \<Rightarrow> nat option" where
  "parse_digits [] acc = Some acc"
| "parse_digits (c # cs) acc =
     (case digit_value c of
        None \<Rightarrow> None
      | Some d \<Rightarrow> parse_digits cs (10 * acc + d))"

definition invalid_literal :: error where
  "invalid_literal = ValueError ''invalid literal for int() with base 10''"

definition py_int_of_str :: "string \<Rightarrow> error + int" where
  "py_int_of_str s =
     (case s of
        [] \<Rightarrow> Inl invalid_literal
      | c # cs \<Rightarrow>
          if c = CHR ''-'' \<or> c = CHR ''+''
          then (if cs = [] then Inl invalid_literal
                else case parse_digits cs 0 of
                       None \<Rightarrow> Inl invalid_literal
                     | Some n \<Rightarrow> Inr (if c = CHR ''-'' then - int n else int n))
          else (case parse_digits s 0 of
                  None \<Rightarrow> Inl invalid_literal
                | Some n \<Rightarrow> Inr (int n)))"

subsection \<open>The generators\<close>

definition generate_patient_id :: "Practice \<Rightarrow> int \<Rightarrow> error + int" where
  "generate_patient_id practice index =
     (let sequential_num = index + 1;
          patient_id_str = py_str sequential_num @ format_03d (practice_id practice)
      in py_int_of_str patient_id_str)"

definition generate_sex :: "'g random_source \<Rightarrow> Practice \<Rightarrow> 'g \<Rightarrow> Sex \<times> 'g" where
  "generate_sex R practice g =
     (let (u, g1) = np_random_random R g
      in (if u < male_proportion practice then MALE else FEMALE, g1))"

text \<open>\<open>Ethnicity[eth_name.upper()]\<close>: the member of the enum with that name.\<close>

definition upper_char :: "char \<Rightarrow> char" where
  "upper_char c =
     (let k = (of_char c :: nat) in if 97 \<le> k \<and> k \<le> 122 then char_of (k - 32) else c)"

definition Ethnicity_by_name :: "string \<Rightarrow> error + Ethnicity" where
  "Ethnicity_by_name name =
     (let n = map upper_char name
      in if n = ''WHITE'' then Inr WHITE
         else if n = ''SOUTH_ASIAN'' then Inr SOUTH_ASIAN
         else if n = ''BLACK'' then Inr BLACK
         else if n = ''MIXED'' then Inr MIXED
         else if n = ''OTHER'' then Inr OTHER
         else if n = ''UNKNOWN'' then Inr UNKNOWN
         else Inl (KeyError n))"

text \<open>
  The loop of \<open>_generate_ethnicity\<close> over the items of the dict, with the running
  \<open>cumsum\<close>. Dividing a Python float by zero raises.
\<close>

fun ethnicity_loop :: "(string \<times> real) list \<Rightarrow> real \<Rightarrow> real \<Rightarrow> real \<Rightarrow> error + Ethnicity" where
  "ethnicity_loop [] effective_total u cumsum = Inr WHITE"
| "ethnicity_loop ((eth_name, prop) # rest) effective_total u cumsum =
     (if eth_name \<noteq> ''unknown''
      then (if effective_total = 0 then Inl ZeroDivisionError
            else (let cumsum1 = cumsum + prop / effective_total
                  in if u < cumsum1 then Ethnicity_by_name eth_name
                     else ethnicity_loop rest effective_total u cumsum1))
      else ethnicity_loop rest effective_total u cumsum)"

definition generate_ethnicity ::
  "'g random_source \<Rightarrow> Practice \<Rightarrow> 'g \<Rightarrow> (error + Ethnicity) \<times> 'g" where
  "generate_ethnicity R practice g =
     (let props = ethnicity_proportions practice;
          (u, g1) = np_random_random R g
      in case map_of props ''unknown'' of
           None \<Rightarrow> (Inl (KeyError ''unknown''), g1)
         | Some unknown \<Rightarrow>
             if u < unknown then (Inr UNKNOWN, g1)
             else (let effective_total = 1 - unknown;
                       (u2, g2) = np_random_random R g1
                   in (ethnicity_loop props effective_total u2 0, g2)))"

definition generate_birth_date :: "'g random_source \<Rightarrow> Practice \<Rightarrow> 'g \<Rightarrow> int \<times> 'g" where
  "generate_birth_date R practice g =
     (let years = birth_years practice;
          (b, g1) = stats_beta_rvs R 2 0.5 g;
          year = earliest_birth_year years
                   + b * (latest_birth_year years - earliest_birth_year years);
          days_in_year = 365.25;
          (day_of_year, g2) = np_random_uniform R 0 days_in_year g1;
          years_since_reference = year - 1960;
          days_since_reference = py_int (years_since_reference * 365.25 + day_of_year)
      in (days_since_reference, g2))"

definition generate_registration_date ::
  "'g random_source \<Rightarrow> Practice \<Rightarrow> int \<Rightarrow> 'g \<Rightarrow> int \<times> 'g" where
  "generate_registration_date R practice birth g =
     (let reg_dates = registration_dates practice;
          (registered, g1) =
            np_random_uniform R (max 0 (earliest_registration reg_dates))
              (latest_registration reg_dates) g
      in if of_int birth \<ge> registered
         then (let max_years_after_birth = 5;
                   (days_after_birth, g2) =
                     np_random_uniform R 0 (max_years_after_birth * 365.25) g1
               in (py_round (of_int birth + days_after_birth), g2))
         else (py_round registered, g1))"

definition generate_transfer_date ::
  "'g random_source \<Rightarrow> Practice \<Rightarrow> int \<Rightarrow> int \<Rightarrow> 'g \<Rightarrow> int option \<times> 'g" where
  "generate_transfer_date R practice birth registered g =
     (let params = transfer_params practice;
          (u, g1) = np_random_random R g
      in if u < transfer_probability params
         then (let (gap, g2) = np_random_uniform R (minimum_gap params) (maximum_gap params) g1;
                   potential_transfer = of_int registered + gap;
                   study_end = latest_registration (registration_dates practice);
                   (buffer, g3) = np_random_uniform R 0 60 g2;
                   min_transfer_date = max 11323 (of_int birth + (18 * 365.25) + 7 + buffer)
               in if potential_transfer \<le> study_end \<and> potential_transfer > min_transfer_date
                  then (Some (py_round potential_transfer), g3)
                  else (None, g3))
         else (None, g1))"

definition generate_death_date :: "Practice \<Rightarrow> int \<Rightarrow> int option \<Rightarrow> int option" where
  "generate_death_date practice birth transfer =
     (let potential_death = birth + py_int (105 * 365.25)
      in if of_int potential_death \<le> latest_registration (registration_dates practice)
            \<and> (case transfer of None \<Rightarrow> True | Some t \<Rightarrow> potential_death \<le> t)
         then Some potential_death
         else None)"

definition create_patient ::
  "'g random_source \<Rightarrow> Practice \<Rightarrow> int \<Rightarrow> 'g \<Rightarrow> (error + Patient) \<times> 'g" where
  "create_patient R practice index g =
     (case generate_patient_id practice index of
        Inl e \<Rightarrow> (Inl e, g)
      | Inr pid \<Rightarrow>
     (let (sx, g1) = generate_sex R practice g
      in case generate_ethnicity R practice g1 of
           (Inl e, g2) \<Rightarrow> (Inl e, g2)
         | (Inr eth, g2) \<Rightarrow>
             (let (birth, g3) = generate_birth_date R practice g2;
                  (registered, g4) = generate_registration_date R practice birth g3;
                  (transfer, g5) = generate_transfer_date R practice birth registered g4;
                  death = generate_death_date practice birth transfer
              in (Patient_post_init
                    \<lparr>patient_id = pid, patient_practice_id = practice_id practice,
                     birth_date = birth, registration_date = registered, sex = sx,
                     ethnicity = eth, transfer_date = transfer, death_date = death\<rparr>, g5))))"

fun create_patient_list ::
  "'g random_source \<Rightarrow> Practice \<Rightarrow> int list \<Rightarrow> 'g \<Rightarrow> (error + Patient list) \<times> 'g" where
  "create_patient_list R practice [] g = (Inr [], g)"
| "create_patient_list R practice (index # rest) g =
     (case create_patient R practice index g of
        (Inl e, g1) \<Rightarrow> (Inl e, g1)
      | (Inr p, g1) \<Rightarrow>
          (case create_patient_list R practice rest g1 of
             (Inl e, g2) \<Rightarrow> (Inl e, g2)
           | (Inr ps, g2) \<Rightarrow> (Inr (p # ps), g2)))"

definition create_patients ::
  "'g random_source \<Rightarrow> Practice \<Rightarrow> 'g \<Rightarrow> (error + Patient list) \<times> 'g" where
  "create_patients R practice g =
     (case create_patient_list R practice [0..patient_count practice - 1] g of
        (Inl e, g1) \<Rightarrow> (Inl e, g1)
      | (Inr patients, g1) \<Rightarrow>
          (let patient_ids = map patient_id patients
           in if card (set patient_ids) \<noteq> length patient_ids
              then (Inl (ValueError ''Duplicate patient IDs found''), g1)
              else (Inr (sort_key patient_id patients), g1)))"

section \<open>Example inputs\<close>

text \<open>
  The draws of one practice under the default configuration, in the order
  \<open>create_practice\<close> asks for them, and the practice they give.
\<close>

definition example_draws :: "real list" where
  "example_draws =
     [30, 20, 26, -5000, 11000, - ln 199, - ln 199, - ln 199, - ln 199, - ln 199,
      0.4, 0.2, 0, 7000, 22400, 1900, 1943, 1980]"

definition example_practice :: Practice where
  "example_practice =
     \<lparr>practice_id = 1, patient_count = 1000, male_proportion = 0.4,
      registration_dates =
        \<lparr>latest_registration = 20900, earliest_registration = -5000,
         median_registration = 11000\<rparr>,
      transfer_params =
        \<lparr>transfer_probability = 0.2, minimum_gap = 400, median_gap = 7000,
         maximum_gap = 22400\<rparr>,
      birth_years =
        \<lparr>earliest_birth_year = 1900, median_birth_year = 1943, latest_birth_year = 1980\<rparr>,
      ethnicity_proportions =
        [(''unknown'', 1 / 200), (''south_asian'', 1 / 199), (''black'', 200 / 199 ^ 2),
         (''mixed'', 200 ^ 2 / 199 ^ 3), (''other'', 200 ^ 3 / 199 ^ 4),
         (''white'',
            (1 - 1 / 199 - 200 / 199 ^ 2 - 200 ^ 2 / 199 ^ 3 - 200 ^ 3 / 199 ^ 4)
              * (199 / 200))]\<rparr>"

text \<open>
  Draws under which the earliest registration date of a practice falls after the latest.
\<close>

definition late_draws :: "real list" where
  "late_draws = [30, 20, 26, 21000, 11000]"

text \<open>
  The draws of two patients of the example practice, in the order \<open>create_patient\<close> asks
  for them: one born early enough to die before the end of the study, and one whose
  registration date is drawn before the birth date.
\<close>

definition early_birth_draws :: "real list" where
  "early_birth_draws = [0.5, 0.5, 0.5, 0.01, 100.8, 5000, 0.1, 12000, 30]"

definition rounded_registration_draws :: "real list" where
  "rounded_registration_draws = [0.5, 0.5, 0.5, 0.9, 100.25, 3000, 0.25, 0.9]"

section \<open>Construction of patients\<close>

text \<open>
  C10. The date checks of the patient constructor test an optional date by its truth
  value, so the date 0 (1960-01-01) is treated as absent: a patient whose transfer date is
  0 is constructed although that date is not after the registration date, and a patient
  whose death date is 0 is constructed although that date is not after the birth date.
\<close>

theorem Patient_zero_date_skips_checks:
  "(birth_date p < registration_date p \<and> transfer_date p = Some 0
      \<and> 0 \<le> registration_date p \<and> death_date p = None
      \<longrightarrow> Patient_post_init p = Inr p)
   \<and> (birth_date p < registration_date p \<and> death_date p = Some 0
      \<and> 0 \<le> birth_date p \<and> transfer_date p = None
      \<longrightarrow> Patient_post_init p = Inr p)"
  by (simp add: Patient_post_init_def truthy_def)

theorem Patient_zero_date_skips_checks_witness:
  "Patient_post_init \<lparr>patient_id = 1001, patient_practice_id = 1, birth_date = -5,
      registration_date = 10, sex = MALE, ethnicity = WHITE, transfer_date = Some 0,
      death_date = None\<rparr>
    = Inr \<lparr>patient_id = 1001, patient_practice_id = 1, birth_date = -5,
      registration_date = 10, sex = MALE, ethnicity = WHITE, transfer_date = Some 0,
      death_date = None\<rparr>
   \<and> Patient_post_init \<lparr>patient_id = 1001, patient_practice_id = 1, birth_date = 5,
      registration_date = 10, sex = MALE, ethnicity = WHITE, transfer_date = None,
      death_date = Some 0\<rparr>
    = Inr \<lparr>patient_id = 1001, patient_practice_id = 1, birth_date = 5,
      registration_date = 10, sex = MALE, ethnicity = WHITE, transfer_date = None,
      death_date = Some 0\<rparr>"
  using Patient_zero_date_skips_checks
    [of "\<lparr>patient_id = 1001, patient_practice_id = 1, birth_date = -5,
      registration_date = 10, sex = MALE, ethnicity = WHITE, transfer_date = Some 0,
      death_date = None\<rparr>"]
    Patient_zero_date_skips_checks
    [of "\<lparr>patient_id = 1001, patient_practice_id = 1, birth_date = 5,
      registration_date = 10, sex = MALE, ethnicity = WHITE, transfer_date = None,
      death_date = Some 0\<rparr>"]
  by simp

section \<open>Construction of practices\<close>

subsection \<open>What a successful construction gives\<close>

lemma RegistrationDates_post_init_Inr:
  "RegistrationDates_post_init r = Inr r' \<Longrightarrow>
     r' = r \<and> earliest_registration r \<le> median_registration r
       \<and> median_registration r \<le> latest_registration r"
  by (simp add: RegistrationDates_post_init_def split: if_splits)

lemma TransferParameters_post_init_Inr:
  "TransferParameters_post_init t = Inr t' \<Longrightarrow>
     t' = t \<and> 0 \<le> minimum_gap t \<and> minimum_gap t \<le> median_gap t
       \<and> median_gap t \<le> maximum_gap t"
  by (simp add: TransferParameters_post_init_def split: if_splits)

lemma BirthYearParameters_post_init_Inr:
  "BirthYearParameters_post_init b = Inr b' \<Longrightarrow>
     b' = b \<and> earliest_birth_year b \<le> median_birth_year b
       \<and> median_birth_year b \<le> latest_birth_year b"
  by (simp add: BirthYearParameters_post_init_def split: if_splits)

lemma generate_registration_dates_Inr:
  "generate_registration_dates R config g = (Inr r, g') \<Longrightarrow>
     RegistrationDates_post_init r = Inr r"
  by (auto simp: generate_registration_dates_def Let_def
        dest: RegistrationDates_post_init_Inr split: if_splits prod.splits)

lemma generate_transfer_parameters_Inr:
  "generate_transfer_parameters R config g = (Inr t, g') \<Longrightarrow>
     TransferParameters_post_init t = Inr t"
  by (auto simp: generate_transfer_parameters_def Let_def
        dest: TransferParameters_post_init_Inr split: if_splits prod.splits)

lemma generate_birth_years_Inr:
  "generate_birth_years R config g = (Inr b, g') \<Longrightarrow>
     BirthYearParameters_post_init b = Inr b"
  by (auto simp: generate_birth_years_def Let_def
        dest: BirthYearParameters_post_init_Inr split: if_splits prod.splits)

lemma Practice_post_init_Inr: "Practice_post_init p = Inr q \<Longrightarrow> q = p"
  by (simp add: Practice_post_init_def split: if_splits)

lemma create_practice_Inr:
  assumes "create_practice R config pid g = (Inr p, g')"
  shows "practice_id p = pid"
    and "RegistrationDates_post_init (registration_dates p) = Inr (registration_dates p)"
    and "TransferParameters_post_init (transfer_params p) = Inr (transfer_params p)"
    and "BirthYearParameters_post_init (birth_years p) = Inr (birth_years p)"
  using assms
  by (auto simp: create_practice_def
        dest!: Practice_post_init_Inr generate_registration_dates_Inr
          generate_transfer_parameters_Inr generate_birth_years_Inr
        split: prod.splits sum.splits)

subsection \<open>The example practice\<close>

lemma example_practice_size:
  "generate_practice_size scripted get_default_config example_draws
     = (Inr 1000, drop 2 example_draws)"
  by (simp add: example_draws_def generate_practice_size_def get_default_config_def
        scripted_def next_value_def py_round_def)

lemma example_registration_dates:
  "generate_registration_dates scripted get_default_config (drop 2 example_draws)
     = (Inr (registration_dates example_practice), drop 5 example_draws)"
  by (simp add: example_draws_def example_practice_def generate_registration_dates_def
        get_default_config_def scripted_def next_value_def np_clip_def
        RegistrationDates_post_init_def)

lemma example_ethnicity_proportions:
  "generate_ethnicity_proportions scripted get_default_config (drop 5 example_draws)
     = (Inr (ethnicity_proportions example_practice), drop 10 example_draws)"
  by (simp add: example_draws_def example_practice_def generate_ethnicity_proportions_def
        get_default_config_def scripted_def logistic_def)

lemma example_demographics:
  "generate_demographics scripted get_default_config (drop 10 example_draws)
     = (Inr (male_proportion example_practice), drop 11 example_draws)"
  by (simp add: example_draws_def example_practice_def generate_demographics_def
        get_default_config_def scripted_def next_value_def np_clip_def)

lemma example_transfer_parameters:
  "generate_transfer_parameters scripted get_default_config (drop 11 example_draws)
     = (Inr (transfer_params example_practice), drop 15 example_draws)"
  by (simp add: example_draws_def example_practice_def generate_transfer_parameters_def
        get_default_config_def scripted_def next_value_def np_clip_def np_round_def
        py_round_def TransferParameters_post_init_def)

lemma example_birth_years:
  "generate_birth_years scripted get_default_config (drop 15 example_draws)
     = (Inr (birth_years example_practice), [])"
  by (simp add: example_draws_def example_practice_def generate_birth_years_def
        get_default_config_def scripted_def next_value_def np_clip_def np_round_def
        py_round_def BirthYearParameters_post_init_def)

lemma example_keys:
  "set (map fst (ethnicity_proportions example_practice)) = required_ethnicities"
  by (auto simp: example_practice_def required_ethnicities_def)

lemma example_total:
  "sum_list (map snd (ethnicity_proportions example_practice))
     = 1 + 31760799 / 313647840200"
  by (simp add: example_practice_def)

lemma example_practice_valid: "Practice_post_init example_practice = Inr example_practice"
proof -
  have "list_all (\<lambda>prop. 0 \<le> prop \<and> prop \<le> 1) (map snd (ethnicity_proportions example_practice))"
    by (simp add: example_practice_def)
  moreover have "py_int (sum_list (map snd (ethnicity_proportions example_practice))) = 1"
    unfolding example_total by (simp add: py_int_def)
  moreover have "practice_id example_practice = 1" "patient_count example_practice = 1000"
    "male_proportion example_practice = 0.4"
    by (simp_all add: example_practice_def)
  ultimately show ?thesis
    using example_keys by (simp add: Practice_post_init_def)
qed

lemma example_practice_rebuilt:
  "\<lparr>practice_id = 1, patient_count = 1000,
      male_proportion = male_proportion example_practice,
      registration_dates = registration_dates example_practice,
      transfer_params = transfer_params example_practice,
      birth_years = birth_years example_practice,
      ethnicity_proportions = ethnicity_proportions example_practice\<rparr> = example_practice"
  by (simp add: example_practice_def)

lemma create_example_practice:
  "create_practice scripted get_default_config 1 example_draws = (Inr example_practice, [])"
  by (simp add: create_practice_def example_practice_size example_registration_dates
        example_ethnicity_proportions example_demographics example_transfer_parameters
        example_birth_years example_practice_rebuilt example_practice_valid)

subsection \<open>The exceptions of one practice\<close>

lemma generate_practice_size_error:
  "generate_practice_size R config g = (Inl e, g') \<Longrightarrow>
     e \<in> {ValueError ''Degrees of freedom must be positive'',
           ValueError ''Practice size multiplier must be positive''}"
  by (auto simp: generate_practice_size_def Let_def split: if_splits prod.splits)

lemma generate_registration_dates_error:
  "generate_registration_dates R config g = (Inl e, g') \<Longrightarrow>
     e \<in> {ValueError ''All registration date standard deviations must be positive'',
           ValueError ''Registration dates must be ordered: earliest <= median <= latest''}"
  by (auto simp: generate_registration_dates_def RegistrationDates_post_init_def Let_def
        split: if_splits prod.splits)

lemma generate_ethnicity_proportions_error:
  "generate_ethnicity_proportions R config g = (Inl e, g') \<Longrightarrow> e = KeyError ''unknown''"
  by (auto simp: generate_ethnicity_proportions_def Let_def
        split: if_splits prod.splits option.splits)

lemma generate_demographics_error:
  "generate_demographics R config g = (Inl e, g') \<Longrightarrow>
     e \<in> {ValueError ''Male proportion mean must be between 0 and 1'',
           ValueError ''Male proportion standard deviation must be positive''}"
  by (auto simp: generate_demographics_def Let_def split: if_splits prod.splits)

lemma generate_transfer_parameters_error:
  "generate_transfer_parameters R config g = (Inl e, g') \<Longrightarrow>
     e \<in> {ValueError ''Transfer probability mean must be between 0 and 1'',
           ValueError ''Transfer probability standard deviation must be positive'',
           ValueError ''All transfer gap standard deviations must be positive'',
           ValueError ''Transfer gap means must be properly ordered'',
           ValueError ''Transfer probability must be between 0 and 1'',
           ValueError ''Transfer gaps must be ordered: minimum <= median <= maximum'',
           ValueError ''Transfer gaps cannot be negative''}"
  unfolding generate_transfer_parameters_def TransferParameters_post_init_def Let_def
  by (simp split: if_splits prod.splits)

lemma generate_birth_years_error:
  "generate_birth_years R config g = (Inl e, g') \<Longrightarrow>
     e \<in> {ValueError ''All birth year standard deviations must be positive'',
           ValueError ''Birth year means must be in chronological order'',
           ValueError ''Earliest birth year mean must be realistic (1800-2024)'',
           ValueError ''Birth years must be ordered: earliest <= median <= latest'',
           ValueError ''Birth years must be realistic (between 1800 and 2024)''}"
  unfolding generate_birth_years_def BirthYearParameters_post_init_def Let_def
  by (simp split: if_splits prod.splits)

lemma Practice_post_init_error:
  "Practice_post_init p = Inl e \<Longrightarrow>
     e \<in> {ValueError ''Practice ID must be a positive integer'',
           ValueError ''Patient count must be a positive integer'',
           ValueError ''Male proportion must be between 0 and 1'',
           ValueError ''Ethnicity proportions must be between 0 and 1'',
           ValueError ''Ethnicity proportions must sum to 1'',
           ValueError ''Ethnicity proportions must contain exactly these keys''}"
  unfolding Practice_post_init_def
  by (simp split: if_splits)

lemma create_practice_error:
  assumes "create_practice R config pid g = (Inl e, g')"
  shows "e \<noteq> ValueError ''Number of practices must be positive''"
proof
  assume e: "e = ValueError ''Number of practices must be positive''"
  from assms show False
    unfolding create_practice_def e
    by (auto split: prod.splits sum.splits
          dest!: generate_practice_size_error generate_registration_dates_error
            generate_ethnicity_proportions_error generate_demographics_error
            generate_transfer_parameters_error generate_birth_years_error
            Practice_post_init_error)
qed

subsection \<open>Many practices\<close>

lemma create_practice_list_ids:
  "create_practice_list R config pids g = (Inr ps, g') \<Longrightarrow> map practice_id ps = pids"
proof (induction pids arbitrary: g ps)
  case Nil
  then show ?case by simp
next
  case (Cons pid pids)
  then show ?case
    by (auto split: prod.splits sum.splits dest: create_practice_Inr(1))
qed

lemma create_practice_list_error:
  "create_practice_list R config pids g = (Inl e, g') \<Longrightarrow>
     \<exists>pid g0. pid \<in> set pids \<and> create_practice R config pid g0 = (Inl e, g')"
proof (induction pids arbitrary: g)
  case Nil
  then show ?case by simp
next
  case (Cons pid pids)
  show ?case
  proof (cases "create_practice R config pid g")
    case (Pair r g1)
    show ?thesis
    proof (cases r)
      case (Inl e1)
      with Pair Cons.prems have "create_practice R config pid g = (Inl e, g')" by simp
      then show ?thesis by auto
    next
      case (Inr p)
      with Pair Cons.prems have "create_practice_list R config pids g1 = (Inl e, g')"
        by (simp split: prod.splits sum.splits)
      from Cons.IH [OF this] show ?thesis by auto
    qed
  qed
qed

lemma range_plus_one: "map (\<lambda>i. i + 1) [a..b] = [a + 1..b + 1]"
proof (induction a b rule: upto.induct)
  case (1 i j)
  show ?case
  proof (cases "i \<le> j")
    case True
    then have "[i..j] = i # [i + 1..j]" "[i + 1..j + 1] = (i + 1) # [i + 1 + 1..j + 1]"
      by (simp_all add: upto_rec1)
    with 1 True show ?thesis by simp
  next
    case False
    then show ?thesis by simp
  qed
qed

lemma practice_ids: "map (\<lambda>i. i + 1) [0..n - 1] = [1..n]"
  using range_plus_one [of 0 "n - 1"] by simp

lemma create_practices_count_error:
  "fst (create_practices R config n g) = Inl (ValueError ''Number of practices must be positive'')
      \<longleftrightarrow> n \<le> 0"
proof
  assume raised: "fst (create_practices R config n g)
    = Inl (ValueError ''Number of practices must be positive'')"
  show "n \<le> 0"
  proof (rule ccontr)
    assume pos: "\<not> n \<le> 0"
    then have "create_practices R config n g = create_practice_list R config [1..n] g"
      by (simp add: create_practices_def practice_ids)
    with raised have "fst (create_practice_list R config [1..n] g)
      = Inl (ValueError ''Number of practices must be positive'')"
      by simp
    then obtain g1 where
      "create_practice_list R config [1..n] g
         = (Inl (ValueError ''Number of practices must be positive''), g1)"
      by (metis prod.collapse)
    from create_practice_list_error [OF this] obtain pid g0 where
      "create_practice R config pid g0
         = (Inl (ValueError ''Number of practices must be positive''), g1)"
      by blast
    from create_practice_error [OF this] show False
      by simp
  qed
next
  assume "n \<le> 0"
  then show "fst (create_practices R config n g)
    = Inl (ValueError ''Number of practices must be positive'')"
    by (simp add: create_practices_def)
qed

lemma create_practices_rejected_state:
  "n \<le> 0 \<Longrightarrow> snd (create_practices R config n g) = g"
  by (simp add: create_practices_def)

lemma create_practices_Inr:
  assumes "create_practices R config n g = (Inr ps, g')"
  shows "1 \<le> n \<and> int (length ps) = n \<and> map practice_id ps = [1..n]"
proof -
  from assms have n: "1 \<le> n"
    by (simp add: create_practices_def split: if_splits)
  with assms have "create_practice_list R config [1..n] g = (Inr ps, g')"
    by (simp add: create_practices_def practice_ids)
  then have ids: "map practice_id ps = [1..n]"
    by (rule create_practice_list_ids)
  then have "length ps = length [1..n]"
    by (metis length_map)
  with n ids show ?thesis
    by simp
qed

lemma create_practices_Inl:
  assumes "1 \<le> n" and "create_practices R config n g = (Inl e, g')"
  shows "\<exists>pid g0. 1 \<le> pid \<and> pid \<le> n \<and> create_practice R config pid g0 = (Inl e, g')"
proof -
  from assms have "create_practice_list R config [1..n] g = (Inl e, g')"
    by (simp add: create_practices_def practice_ids)
  from create_practice_list_error [OF this] obtain pid g0 where
    "pid \<in> set [1..n]" and "create_practice R config pid g0 = (Inl e, g')"
    by blast
  then show ?thesis
    by (intro exI [of _ pid] exI [of _ g0]) simp
qed

text \<open>
  C6 (as amended). \<open>create_practices\<close> raises its own error, without drawing, exactly when
  the count is not positive. For a count of at least 1 it either returns exactly that many
  practices, whose identifiers are 1 to the count in order, or ends with the exception that
  \<open>create_practice\<close> raised for one of these identifiers.
\<close>

theorem create_practices_sequential:
  "(fst (create_practices R config n g) = Inl (ValueError ''Number of practices must be positive'')
      \<longleftrightarrow> n \<le> 0)
   \<and> (n \<le> 0 \<longrightarrow> snd (create_practices R config n g) = g)
   \<and> (create_practices R config n g = (Inr ps, g')
        \<longrightarrow> 1 \<le> n \<and> int (length ps) = n \<and> map practice_id ps = [1..n])
   \<and> (1 \<le> n \<and> create_practices R config n g = (Inl e, g')
        \<longrightarrow> (\<exists>pid g0. 1 \<le> pid \<and> pid \<le> n \<and> create_practice R config pid g0 = (Inl e, g')))"
proof -
  have a: "fst (create_practices R config n g) = Inl (ValueError ''Number of practices must be positive'')
      \<longleftrightarrow> n \<le> 0"
    by (rule create_practices_count_error)
  have b: "n \<le> 0 \<longrightarrow> snd (create_practices R config n g) = g"
    by (simp add: create_practices_rejected_state)
  have c: "create_practices R config n g = (Inr ps, g')
        \<longrightarrow> 1 \<le> n \<and> int (length ps) = n \<and> map practice_id ps = [1..n]"
    using create_practices_Inr [of R config n g ps g'] by (rule impI)
  have d: "1 \<le> n \<and> create_practices R config n g = (Inl e, g')
        \<longrightarrow> (\<exists>pid g0. 1 \<le> pid \<and> pid \<le> n \<and> create_practice R config pid g0 = (Inl e, g'))"
  proof
    assume "1 \<le> n \<and> create_practices R config n g = (Inl e, g')"
    then have "1 \<le> n" and "create_practices R config n g = (Inl e, g')"
      by simp_all
    then show "\<exists>pid g0. 1 \<le> pid \<and> pid \<le> n \<and> create_practice R config pid g0 = (Inl e, g')"
      by (rule create_practices_Inl)
  qed
  show ?thesis
    by (rule conjI [OF a conjI [OF b conjI [OF c d]]])
qed

lemma create_one_example_practice:
  "create_practices scripted get_default_config 1 example_draws = (Inr [example_practice], [])"
  by (simp add: create_practices_def create_example_practice)

lemma rejected_registration_dates:
  "generate_registration_dates scripted get_default_config (drop 2 late_draws)
     = (Inl (ValueError ''Registration dates must be ordered: earliest <= median <= latest''), [])"
  by (simp add: late_draws_def generate_registration_dates_def get_default_config_def
        scripted_def next_value_def np_clip_def RegistrationDates_post_init_def)

lemma rejected_practice:
  "create_practice scripted get_default_config 1 late_draws
     = (Inl (ValueError ''Registration dates must be ordered: earliest <= median <= latest''), [])"
proof -
  have "generate_practice_size scripted get_default_config late_draws
     = (Inr 1000, drop 2 late_draws)"
    by (simp add: late_draws_def generate_practice_size_def get_default_config_def
          scripted_def next_value_def py_round_def)
  then show ?thesis
    by (simp add: create_practice_def rejected_registration_dates)
qed

text \<open>
  C6 as stated fails: with a count of 1, and an earliest registration date drawn after the
  latest one, the constructor of the registration dates raises and no list is returned.
\<close>

theorem create_practices_raises_counterexample:
  "(1::int) \<le> 1
   \<and> create_practices scripted get_default_config 1 late_draws
       = (Inl (ValueError ''Registration dates must be ordered: earliest <= median <= latest''),
          [])"
  by (simp add: create_practices_def rejected_practice)

theorem create_practices_sequential_witness:
  "fst (create_practices scripted get_default_config 0 example_draws)
      = Inl (ValueError ''Number of practices must be positive'')
   \<and> snd (create_practices scripted get_default_config 0 example_draws) = example_draws
   \<and> create_practices scripted get_default_config 1 example_draws = (Inr [example_practice], [])
   \<and> int (length [example_practice]) = 1
   \<and> map practice_id [example_practice] = [1..1]
   \<and> (\<exists>pid g0. 1 \<le> pid \<and> pid \<le> 1
        \<and> create_practice scripted get_default_config pid g0
            = (Inl (ValueError ''Registration dates must be ordered: earliest <= median <= latest''), []))"
proof -
  note t0 = create_practices_sequential
    [of scripted get_default_config 0 example_draws "[]" "[]" ZeroDivisionError]
  note t1 = create_practices_sequential
    [of scripted get_default_config 1 example_draws "[example_practice]" "[]" ZeroDivisionError]
  note t2 = create_practices_sequential
    [of scripted get_default_config 1 late_draws "[]" "[]"
      "ValueError ''Registration dates must be ordered: earliest <= median <= latest''"]
  from t0 have "fst (create_practices scripted get_default_config 0 example_draws)
      = Inl (ValueError ''Number of practices must be positive'') \<longleftrightarrow> (0::int) \<le> 0"
    by (rule conjunct1)
  then have w1: "fst (create_practices scripted get_default_config 0 example_draws)
      = Inl (ValueError ''Number of practices must be positive'')"
    by simp
  from t0 have "(0::int) \<le> 0
      \<longrightarrow> snd (create_practices scripted get_default_config 0 example_draws) = example_draws"
    by (rule conjunct1 [OF conjunct2])
  then have w2: "snd (create_practices scripted get_default_config 0 example_draws) = example_draws"
    by simp
  from t1 have "create_practices scripted get_default_config 1 example_draws
        = (Inr [example_practice], [])
      \<longrightarrow> (1::int) \<le> 1 \<and> int (length [example_practice]) = 1
          \<and> map practice_id [example_practice] = [1..1]"
    by (rule conjunct1 [OF conjunct2 [OF conjunct2]])
  with create_one_example_practice
  have w3: "int (length [example_practice]) = 1 \<and> map practice_id [example_practice] = [1..1]"
    by (metis (no_types))
  from t2 have "(1::int) \<le> 1
        \<and> create_practices scripted get_default_config 1 late_draws
            = (Inl (ValueError ''Registration dates must be ordered: earliest <= median <= latest''), [])
      \<longrightarrow> (\<exists>pid g0. 1 \<le> pid \<and> pid \<le> 1
            \<and> create_practice scripted get_default_config pid g0
                = (Inl (ValueError ''Registration dates must be ordered: earliest <= median <= latest''), []))"
    by (rule conjunct2 [OF conjunct2 [OF conjunct2]])
  moreover have "(1::int) \<le> 1
        \<and> create_practices scripted get_default_config 1 late_draws
            = (Inl (ValueError ''Registration dates must be ordered: earliest <= median <= latest''), [])"
    by (simp add: create_practices_def rejected_practice)
  ultimately have w4: "\<exists>pid g0. 1 \<le> pid \<and> pid \<le> 1
            \<and> create_practice scripted get_default_config pid g0
                = (Inl (ValueError ''Registration dates must be ordered: earliest <= median <= latest''), [])"
    by (rule mp)
  from w1 w2 create_one_example_practice w3 w4 show ?thesis
    by (intro conjI) (erule conjunct1 conjunct2 | assumption)+
qed

subsection \<open>The orderings of a constructed practice\<close>

text \<open>
  C5. The constructors of the registration dates, the birth years and the transfer
  parameters return an object only when it is ordered (and the minimum gap is not negative),
  and raise on every violation of the order; so every practice that \<open>create_practice\<close>
  returns has the three orderings.
\<close>

theorem constructed_practice_is_ordered:
  "(RegistrationDates_post_init r = Inr r'
      \<longrightarrow> earliest_registration r' \<le> median_registration r'
          \<and> median_registration r' \<le> latest_registration r')
   \<and> (\<not> (earliest_registration r \<le> median_registration r
            \<and> median_registration r \<le> latest_registration r)
      \<longrightarrow> isl (RegistrationDates_post_init r))
   \<and> (BirthYearParameters_post_init b = Inr b'
      \<longrightarrow> earliest_birth_year b' \<le> median_birth_year b'
          \<and> median_birth_year b' \<le> latest_birth_year b')
   \<and> (\<not> (earliest_birth_year b \<le> median_birth_year b
            \<and> median_birth_year b \<le> latest_birth_year b)
      \<longrightarrow> isl (BirthYearParameters_post_init b))
   \<and> (TransferParameters_post_init t = Inr t'
      \<longrightarrow> 0 \<le> minimum_gap t' \<and> minimum_gap t' \<le> median_gap t'
          \<and> median_gap t' \<le> maximum_gap t')
   \<and> (\<not> (0 \<le> minimum_gap t \<and> minimum_gap t \<le> median_gap t
            \<and> median_gap t \<le> maximum_gap t)
      \<longrightarrow> isl (TransferParameters_post_init t))
   \<and> (create_practice R config pid g = (Inr p, g')
      \<longrightarrow> earliest_registration (registration_dates p) \<le> median_registration (registration_dates p)
          \<and> median_registration (registration_dates p) \<le> latest_registration (registration_dates p)
          \<and> earliest_birth_year (birth_years p) \<le> median_birth_year (birth_years p)
          \<and> median_birth_year (birth_years p) \<le> latest_birth_year (birth_years p)
          \<and> 0 \<le> minimum_gap (transfer_params p)
          \<and> minimum_gap (transfer_params p) \<le> median_gap (transfer_params p)
          \<and> median_gap (transfer_params p) \<le> maximum_gap (transfer_params p))"
proof -
  have r1: "RegistrationDates_post_init r = Inr r'
      \<longrightarrow> earliest_registration r' \<le> median_registration r'
          \<and> median_registration r' \<le> latest_registration r'"
    by (auto dest: RegistrationDates_post_init_Inr)
  have r2: "\<not> (earliest_registration r \<le> median_registration r
            \<and> median_registration r \<le> latest_registration r)
      \<longrightarrow> isl (RegistrationDates_post_init r)"
    by (simp add: RegistrationDates_post_init_def)
  have b1: "BirthYearParameters_post_init b = Inr b'
      \<longrightarrow> earliest_birth_year b' \<le> median_birth_year b'
          \<and> median_birth_year b' \<le> latest_birth_year b'"
    by (auto dest: BirthYearParameters_post_init_Inr)
  have b2: "\<not> (earliest_birth_year b \<le> median_birth_year b
            \<and> median_birth_year b \<le> latest_birth_year b)
      \<longrightarrow> isl (BirthYearParameters_post_init b)"
    by (simp add: BirthYearParameters_post_init_def)
  have t1: "TransferParameters_post_init t = Inr t'
      \<longrightarrow> 0 \<le> minimum_gap t' \<and> minimum_gap t' \<le> median_gap t'
          \<and> median_gap t' \<le> maximum_gap t'"
    by (auto dest: TransferParameters_post_init_Inr)
  have t2: "\<not> (0 \<le> minimum_gap t \<and> minimum_gap t \<le> median_gap t
            \<and> median_gap t \<le> maximum_gap t)
      \<longrightarrow> isl (TransferParameters_post_init t)"
    by (simp add: TransferParameters_post_init_def)
  have p1: "create_practice R config pid g = (Inr p, g')
      \<longrightarrow> earliest_registration (registration_dates p) \<le> median_registration (registration_dates p)
          \<and> median_registration (registration_dates p) \<le> latest_registration (registration_dates p)
          \<and> earliest_birth_year (birth_years p) \<le> median_birth_year (birth_years p)
          \<and> median_birth_year (birth_years p) \<le> latest_birth_year (birth_years p)
          \<and> 0 \<le> minimum_gap (transfer_params p)
          \<and> minimum_gap (transfer_params p) \<le> median_gap (transfer_params p)
          \<and> median_gap (transfer_params p) \<le> maximum_gap (transfer_params p)"
  proof
    assume made: "create_practice R config pid g = (Inr p, g')"
    from create_practice_Inr(2) [OF made] RegistrationDates_post_init_Inr
    have "earliest_registration (registration_dates p) \<le> median_registration (registration_dates p)
          \<and> median_registration (registration_dates p) \<le> latest_registration (registration_dates p)"
      by blast
    moreover from create_practice_Inr(4) [OF made] BirthYearParameters_post_init_Inr
    have "earliest_birth_year (birth_years p) \<le> median_birth_year (birth_years p)
          \<and> median_birth_year (birth_years p) \<le> latest_birth_year (birth_years p)"
      by blast
    moreover from create_practice_Inr(3) [OF made] TransferParameters_post_init_Inr
    have "0 \<le> minimum_gap (transfer_params p)
          \<and> minimum_gap (transfer_params p) \<le> median_gap (transfer_params p)
          \<and> median_gap (transfer_params p) \<le> maximum_gap (transfer_params p)"
      by blast
    ultimately show "earliest_registration (registration_dates p) \<le> median_registration (registration_dates p)
          \<and> median_registration (registration_dates p) \<le> latest_registration (registration_dates p)
          \<and> earliest_birth_year (birth_years p) \<le> median_birth_year (birth_years p)
          \<and> median_birth_year (birth_years p) \<le> latest_birth_year (birth_years p)
          \<and> 0 \<le> minimum_gap (transfer_params p)
          \<and> minimum_gap (transfer_params p) \<le> median_gap (transfer_params p)
          \<and> median_gap (transfer_params p) \<le> maximum_gap (transfer_params p)"
      by simp
  qed
  show ?thesis
    by (rule conjI [OF r1 conjI [OF r2 conjI [OF b1 conjI [OF b2 conjI [OF t1 conjI [OF t2 p1]]]]]])
qed

theorem constructed_practice_is_ordered_witness:
  "RegistrationDates_post_init (registration_dates example_practice)
      = Inr (registration_dates example_practice)
   \<and> isl (RegistrationDates_post_init
        \<lparr>latest_registration = 1, earliest_registration = 2, median_registration = 3\<rparr>)
   \<and> BirthYearParameters_post_init (birth_years example_practice)
      = Inr (birth_years example_practice)
   \<and> isl (BirthYearParameters_post_init
        \<lparr>earliest_birth_year = 1950, median_birth_year = 1940, latest_birth_year = 1980\<rparr>)
   \<and> TransferParameters_post_init (transfer_params example_practice)
      = Inr (transfer_params example_practice)
   \<and> isl (TransferParameters_post_init
        \<lparr>transfer_probability = 0.5, minimum_gap = 2, median_gap = 1, maximum_gap = 3\<rparr>)
   \<and> create_practice scripted get_default_config 1 example_draws = (Inr example_practice, [])
   \<and> earliest_registration (registration_dates example_practice)
        \<le> median_registration (registration_dates example_practice)
   \<and> median_registration (registration_dates example_practice)
        \<le> latest_registration (registration_dates example_practice)
   \<and> earliest_birth_year (birth_years example_practice)
        \<le> median_birth_year (birth_years example_practice)
   \<and> median_birth_year (birth_years example_practice)
        \<le> latest_birth_year (birth_years example_practice)
   \<and> 0 \<le> minimum_gap (transfer_params example_practice)
   \<and> minimum_gap (transfer_params example_practice)
        \<le> median_gap (transfer_params example_practice)
   \<and> median_gap (transfer_params example_practice)
        \<le> maximum_gap (transfer_params example_practice)"
proof -
  note good = constructed_practice_is_ordered
    [of "registration_dates example_practice" "registration_dates example_practice"
      "birth_years example_practice" "birth_years example_practice"
      "transfer_params example_practice" "transfer_params example_practice"
      scripted get_default_config 1 example_draws example_practice "[]"]
  note bad = constructed_practice_is_ordered
    [of "\<lparr>latest_registration = 1, earliest_registration = 2, median_registration = 3\<rparr>"
      "registration_dates example_practice"
      "\<lparr>earliest_birth_year = 1950, median_birth_year = 1940, latest_birth_year = 1980\<rparr>"
      "birth_years example_practice"
      "\<lparr>transfer_probability = 0.5, minimum_gap = 2, median_gap = 1, maximum_gap = 3\<rparr>"
      "transfer_params example_practice"
      scripted get_default_config 1 example_draws example_practice "[]"]
  have made: "create_practice scripted get_default_config 1 example_draws
    = (Inr example_practice, [])"
    by (rule create_example_practice)
  have r: "RegistrationDates_post_init (registration_dates example_practice)
      = Inr (registration_dates example_practice)"
    by (rule create_practice_Inr(2) [OF made])
  have b: "BirthYearParameters_post_init (birth_years example_practice)
      = Inr (birth_years example_practice)"
    by (rule create_practice_Inr(4) [OF made])
  have t: "TransferParameters_post_init (transfer_params example_practice)
      = Inr (transfer_params example_practice)"
    by (rule create_practice_Inr(3) [OF made])
  from bad have "isl (RegistrationDates_post_init
        \<lparr>latest_registration = 1, earliest_registration = 2, median_registration = 3\<rparr>)"
    "isl (BirthYearParameters_post_init
        \<lparr>earliest_birth_year = 1950, median_birth_year = 1940, latest_birth_year = 1980\<rparr>)"
    "isl (TransferParameters_post_init
        \<lparr>transfer_probability = 0.5, minimum_gap = 2, median_gap = 1, maximum_gap = 3\<rparr>)"
    by simp_all
  with good made r b t show ?thesis
    by simp
qed

subsection \<open>The practice size\<close>

lemma py_round_nonnegative: "0 \<le> x \<Longrightarrow> 0 \<le> py_round x"
  by (auto simp: py_round_def Let_def)

lemma generate_practice_size_invalid_config:
  assumes "practice_size_df1 config \<le> 0 \<or> practice_size_df2 config \<le> 0
             \<or> practice_size_multiplier config \<le> 0"
  shows "isl (fst (generate_practice_size R config g))
           \<and> snd (generate_practice_size R config g) = g"
  using assms by (auto simp: generate_practice_size_def)

lemma generate_practice_size_nonnegative:
  assumes "0 < practice_size_df1 config" and "0 < practice_size_df2 config"
    and "0 < practice_size_multiplier config"
    and "stats_chi2_rvs R (of_int (practice_size_df1 config)) g = (n1, g1)"
    and "stats_chi2_rvs R (of_int (practice_size_df2 config)) g1 = (n2, g2)"
    and "0 < n1" and "0 < n2"
  shows "\<exists>k. 0 \<le> k \<and> generate_practice_size R config g = (Inr k, g2)"
proof -
  have "0 \<le> practice_size_multiplier config * (n1 / of_int (practice_size_df1 config))
            / (n2 / of_int (practice_size_df2 config))"
    using assms by simp
  then have "0 \<le> py_round (practice_size_multiplier config
                      * (n1 / of_int (practice_size_df1 config))
                      / (n2 / of_int (practice_size_df2 config)))"
    by (rule py_round_nonnegative)
  with assms show ?thesis
    by (simp add: generate_practice_size_def)
qed

lemma empty_practice_size:
  "generate_practice_size scripted get_default_config (3 / 1000 # tl example_draws)
     = (Inr 0, drop 2 example_draws)"
  by (simp add: example_draws_def generate_practice_size_def get_default_config_def
        scripted_def next_value_def py_round_def)

lemma empty_practice_rebuilt:
  "\<lparr>practice_id = 1, patient_count = 0,
      male_proportion = male_proportion example_practice,
      registration_dates = registration_dates example_practice,
      transfer_params = transfer_params example_practice,
      birth_years = birth_years example_practice,
      ethnicity_proportions = ethnicity_proportions example_practice\<rparr>
     = example_practice\<lparr>patient_count := 0\<rparr>"
  by (simp add: example_practice_def)

lemma empty_practice_rejected:
  "create_practice scripted get_default_config 1 (3 / 1000 # tl example_draws)
     = (Inl (ValueError ''Patient count must be a positive integer''), [])"
proof -
  have "Practice_post_init (example_practice\<lparr>patient_count := 0\<rparr>)
    = Inl (ValueError ''Patient count must be a positive integer'')"
    by (simp add: Practice_post_init_def example_practice_def)
  then show ?thesis
    by (simp add: create_practice_def empty_practice_size example_registration_dates
        example_ethnicity_proportions example_demographics example_transfer_parameters
        example_birth_years empty_practice_rebuilt)
qed

text \<open>
  C4. The practice size is meant to be at least 1: the constructor of the practice
  requires it. But the rounding gives 0 when the scaled ratio of the two draws is at most
  one half; \<open>create_practice\<close> then raises. Shown for the default configuration, and for a
  multiplier of 1 with draws near the middle of their distributions.
\<close>

theorem generate_practice_size_rounds_to_zero:
  "generate_practice_size scripted get_default_config [3 / 1000, 20] = (Inr 0, [])
   \<and> generate_practice_size scripted (get_default_config\<lparr>practice_size_multiplier := 1\<rparr>)
        [15, 30] = (Inr 0, [])
   \<and> create_practice scripted get_default_config 1 (3 / 1000 # tl example_draws)
       = (Inl (ValueError ''Patient count must be a positive integer''), [])"
proof -
  have "generate_practice_size scripted get_default_config [3 / 1000, 20] = (Inr 0, [])"
    by (simp add: generate_practice_size_def get_default_config_def scripted_def
          next_value_def py_round_def)
  moreover
  have "generate_practice_size scripted (get_default_config\<lparr>practice_size_multiplier := 1\<rparr>)
        [15, 30] = (Inr 0, [])"
    by (simp add: generate_practice_size_def get_default_config_def scripted_def
          next_value_def py_round_def)
  ultimately show ?thesis
    using empty_practice_rejected by simp
qed

subsection \<open>The ethnicity proportions\<close>

lemma ethnicity_proportions_keys_and_total:
  assumes "generate_ethnicity_proportions R config g = (Inr props, g')"
  shows "set (map fst props) = required_ethnicities
    \<and> (\<exists>un sa bl mi ot wh.
          props = [(''unknown'', un), (''south_asian'', sa), (''black'', bl), (''mixed'', mi),
                   (''other'', ot), (''white'', wh)]
          \<and> sum_list (map snd props) = 1 + un * (sa + bl + mi + ot))"
proof -
  from assms obtain un sa bl mi ot where
    props: "props = [(''unknown'', un), (''south_asian'', sa), (''black'', bl), (''mixed'', mi),
                   (''other'', ot), (''white'', (1 - sa - bl - mi - ot) * (1 - un))]"
    by (auto simp: generate_ethnicity_proportions_def Let_def
          split: prod.splits option.splits)
  have "set (map fst props) = required_ethnicities"
    unfolding props by (auto simp: required_ethnicities_def)
  moreover have "sum_list (map snd props) = 1 + un * (sa + bl + mi + ot)"
    unfolding props by (simp add: algebra_simps)
  ultimately show ?thesis
    using props by blast
qed

text \<open>
  C2. The keys are the six categories, but the proportions do not sum to 1: white is the
  remainder of the other four scaled by \<open>1 - unknown\<close>, and those four are not scaled, so
  the total is 1 plus \<open>unknown\<close> times their sum. For raw probabilities of 1/200 each the
  total is 1.0001 and the practice is accepted, since its constructor truncates the total
  to an integer before comparing it with 1.
\<close>

theorem ethnicity_proportions_exceed_one:
  "generate_ethnicity_proportions scripted get_default_config (drop 5 example_draws)
      = (Inr (ethnicity_proportions example_practice), drop 10 example_draws)
   \<and> set (map fst (ethnicity_proportions example_practice)) = required_ethnicities
   \<and> sum_list (map snd (ethnicity_proportions example_practice))
      = 1 + 31760799 / 313647840200
   \<and> create_practice scripted get_default_config 1 example_draws = (Inr example_practice, [])"
  using example_ethnicity_proportions example_keys example_total create_example_practice
  by (intro conjI)

section \<open>The patient identifier\<close>

lemma digit_value_digit_char: "d < 10 \<Longrightarrow> digit_value (digit_char d) = Some d"
  by (simp add: digit_value_def digit_char_def Let_def)

lemma digit_char_not_sign:
  assumes "d < 10"
  shows "digit_char d \<noteq> CHR ''-'' \<and> digit_char d \<noteq> CHR ''+''"
proof -
  from assms have code: "of_char (digit_char d) = 48 + d"
    by (simp add: digit_char_def)
  have "digit_char d \<noteq> CHR ''-''"
  proof
    assume "digit_char d = CHR ''-''"
    then have "(of_char (digit_char d) :: nat) = of_char (CHR ''-'')"
      by (rule arg_cong)
    with code show False by simp
  qed
  moreover have "digit_char d \<noteq> CHR ''+''"
  proof
    assume "digit_char d = CHR ''+''"
    then have "(of_char (digit_char d) :: nat) = of_char (CHR ''+'')"
      by (rule arg_cong)
    with code show False by simp
  qed
  ultimately show ?thesis by (rule conjI)
qed

lemma parse_digits_append:
  "parse_digits (xs @ ys) acc =
     (case parse_digits xs acc of None \<Rightarrow> None | Some v \<Rightarrow> parse_digits ys v)"
  by (induction xs arbitrary: acc) (auto split: option.splits)

lemma parse_digits_py_str_nat:
  "parse_digits (py_str_nat n) acc = Some (acc * 10 ^ length (py_str_nat n) + n)"
proof (induction n arbitrary: acc rule: py_str_nat.induct)
  case (1 n)
  show ?case
  proof (cases "n < 10")
    case True
    then have "py_str_nat n = [digit_char n]"
      by (subst py_str_nat.simps) simp
    with True show ?thesis
      by (simp add: digit_value_digit_char)
  next
    case False
    have low: "n mod 10 < 10" by simp
    from False have unfold: "py_str_nat n = py_str_nat (n div 10) @ [digit_char (n mod 10)]"
      by (subst py_str_nat.simps) simp
    have "parse_digits (py_str_nat n) acc
      = parse_digits [digit_char (n mod 10)] (acc * 10 ^ length (py_str_nat (n div 10)) + n div 10)"
      unfolding unfold parse_digits_append using "1.IH" [OF False] by simp
    also have "\<dots> = Some (10 * (acc * 10 ^ length (py_str_nat (n div 10)) + n div 10) + n mod 10)"
      by (simp add: digit_value_digit_char [OF low])
    also have "10 * (acc * 10 ^ length (py_str_nat (n div 10)) + n div 10) + n mod 10
      = acc * 10 ^ length (py_str_nat n) + n"
      unfolding unfold by (simp add: algebra_simps)
    finally show ?thesis .
  qed
qed

lemma parse_digits_zeros:
  "parse_digits (replicate k (CHR ''0'') @ s) acc = parse_digits s (acc * 10 ^ k)"
  by (induction k arbitrary: acc) (simp_all add: digit_value_def algebra_simps)

lemma py_str_nat_first:
  "\<exists>c cs. py_str_nat n = c # cs \<and> c \<noteq> CHR ''-'' \<and> c \<noteq> CHR ''+''"
proof (induction n rule: py_str_nat.induct)
  case (1 n)
  show ?case
  proof (cases "n < 10")
    case True
    then have "py_str_nat n = [digit_char n]"
      by (subst py_str_nat.simps) simp
    with True show ?thesis
      using digit_char_not_sign [of n] by simp
  next
    case False
    from "1.IH" [OF False] obtain c cs where
      "py_str_nat (n div 10) = c # cs" "c \<noteq> CHR ''-''" "c \<noteq> CHR ''+''"
      by blast
    with False show ?thesis
      by (subst py_str_nat.simps) simp
  qed
qed

lemma py_int_of_str_digits:
  assumes "s = py_str_nat a @ t" and "parse_digits s 0 = Some v"
  shows "py_int_of_str s = Inr (int v)"
proof -
  from py_str_nat_first [of a] obtain c cs where
    "py_str_nat a = c # cs" "c \<noteq> CHR ''-''" "c \<noteq> CHR ''+''"
    by blast
  with assms show ?thesis
    by (simp add: py_int_of_str_def)
qed

lemma length_py_str_nat_small: "n < 1000 \<Longrightarrow> length (py_str_nat n) \<le> 3"
  by (subst py_str_nat.simps, subst py_str_nat.simps, subst py_str_nat.simps) simp

lemma patient_id_digits:
  "parse_digits (py_str_nat a @ zero_pad 3 (py_str_nat p)) 0
     = Some (a * 10 ^ max 3 (length (py_str_nat p)) + p)"
proof -
  have "parse_digits (py_str_nat a @ zero_pad 3 (py_str_nat p)) 0
    = parse_digits (zero_pad 3 (py_str_nat p)) a"
    by (simp add: parse_digits_append parse_digits_py_str_nat)
  also have "\<dots> = parse_digits (py_str_nat p) (a * 10 ^ (3 - length (py_str_nat p)))"
    by (simp add: zero_pad_def parse_digits_zeros)
  also have "\<dots> = Some (a * 10 ^ (3 - length (py_str_nat p)) * 10 ^ length (py_str_nat p) + p)"
    by (rule parse_digits_py_str_nat)
  also have "a * 10 ^ (3 - length (py_str_nat p)) * 10 ^ length (py_str_nat p)
    = a * 10 ^ max 3 (length (py_str_nat p))"
    by (simp add: power_add [symmetric] max_def mult.assoc)
  finally show ?thesis .
qed

text \<open>
  C7. For a sequence index of at least 0 and a practice identifier of at least 1, the
  patient identifier is the number whose decimal digits are those of index + 1 followed by
  the practice identifier padded with zeros to three digits: (index + 1) times 10 to the
  width of the padded identifier, plus the practice identifier. For a practice identifier
  of at most 999 this is (index + 1) * 1000 + practice identifier.
\<close>

theorem generate_patient_id_value:
  "(0 \<le> index \<and> 1 \<le> practice_id practice
      \<longrightarrow> generate_patient_id practice index
          = Inr ((index + 1) * 10 ^ max 3 (length (py_str_nat (nat (practice_id practice))))
                 + practice_id practice))
   \<and> (0 \<le> index \<and> 1 \<le> practice_id practice \<and> practice_id practice \<le> 999
      \<longrightarrow> generate_patient_id practice index = Inr ((index + 1) * 1000 + practice_id practice))"
proof -
  have general: "generate_patient_id practice index
      = Inr ((index + 1) * 10 ^ max 3 (length (py_str_nat (nat (practice_id practice))))
             + practice_id practice)"
    if "0 \<le> index" and "1 \<le> practice_id practice"
  proof -
    define a where "a = nat (index + 1)"
    define p where "p = nat (practice_id practice)"
    from that have str: "py_str (index + 1) @ format_03d (practice_id practice)
      = py_str_nat a @ zero_pad 3 (py_str_nat p)"
      by (simp add: py_str_def format_03d_def a_def p_def)
    have "py_int_of_str (py_str_nat a @ zero_pad 3 (py_str_nat p))
      = Inr (int (a * 10 ^ max 3 (length (py_str_nat p)) + p))"
      by (rule py_int_of_str_digits [OF refl patient_id_digits])
    moreover from that have "int (a * 10 ^ max 3 (length (py_str_nat p)) + p)
      = (index + 1) * 10 ^ max 3 (length (py_str_nat (nat (practice_id practice))))
          + practice_id practice"
      by (simp add: a_def p_def)
    ultimately show ?thesis
      by (simp add: generate_patient_id_def str)
  qed
  have small: "generate_patient_id practice index = Inr ((index + 1) * 1000 + practice_id practice)"
    if "0 \<le> index" and "1 \<le> practice_id practice" and "practice_id practice \<le> 999"
  proof -
    from that have "nat (practice_id practice) < 1000" by simp
    then have "length (py_str_nat (nat (practice_id practice))) \<le> 3"
      by (rule length_py_str_nat_small)
    then have "max 3 (length (py_str_nat (nat (practice_id practice)))) = 3"
      by simp
    with general [OF that(1,2)] show ?thesis
      by simp
  qed
  from general small show ?thesis
    by blast
qed

theorem generate_patient_id_value_witness:
  "generate_patient_id example_practice 0 = Inr 1001
   \<and> generate_patient_id example_practice 1 = Inr 2001
   \<and> generate_patient_id (example_practice\<lparr>practice_id := 12\<rparr>) 0 = Inr 1012
   \<and> generate_patient_id (example_practice\<lparr>practice_id := 1234\<rparr>) 0 = Inr 11234"
  using generate_patient_id_value [of 0 example_practice]
    generate_patient_id_value [of 1 example_practice]
    generate_patient_id_value [of 0 "example_practice\<lparr>practice_id := 12\<rparr>"]
    generate_patient_id_value [of 0 "example_practice\<lparr>practice_id := 1234\<rparr>"]
  by (simp add: example_practice_def py_str_nat.simps)

section \<open>Generation of patients\<close>

subsection \<open>The example patients\<close>

lemma by_name_white: "Ethnicity_by_name ''white'' = Inr WHITE"
  by code_simp

lemma example_patient_id: "generate_patient_id example_practice 0 = Inr 1001"
  by code_simp

lemma early_sex:
  "generate_sex scripted example_practice early_birth_draws
     = (FEMALE, tl early_birth_draws)"
  by (simp add: early_birth_draws_def generate_sex_def scripted_def next_value_def
        example_practice_def)

lemma early_ethnicity:
  "generate_ethnicity scripted example_practice (tl early_birth_draws)
     = (Inr WHITE, drop 3 early_birth_draws)"
  by (simp add: early_birth_draws_def generate_ethnicity_def scripted_def next_value_def
        example_practice_def by_name_white)

lemma early_birth_date:
  "generate_birth_date scripted example_practice (drop 3 early_birth_draws)
     = (-21522, drop 5 early_birth_draws)"
  by (simp add: early_birth_draws_def generate_birth_date_def scripted_def next_value_def
        example_practice_def py_int_def)

lemma early_registration_date:
  "generate_registration_date scripted example_practice (-21522) (drop 5 early_birth_draws)
     = (5000, drop 6 early_birth_draws)"
  by (simp add: early_birth_draws_def generate_registration_date_def scripted_def
        next_value_def example_practice_def py_round_def)

lemma early_transfer_date:
  "generate_transfer_date scripted example_practice (-21522) 5000 (drop 6 early_birth_draws)
     = (Some 17000, [])"
  by (simp add: early_birth_draws_def generate_transfer_date_def scripted_def next_value_def
        example_practice_def py_round_def)

lemma early_death_date:
  "generate_death_date example_practice (-21522) (Some 17000) = Some 16829"
  by (simp add: generate_death_date_def example_practice_def py_int_def)

lemma early_patient_rejected:
  "create_patient scripted example_practice 0 early_birth_draws
     = (Inl (ValueError ''Death date must be before transfer date''), [])"
  by (simp add: create_patient_def example_patient_id early_sex early_ethnicity
        early_birth_date early_registration_date early_transfer_date early_death_date
        Patient_post_init_def truthy_def)

lemma rounded_sex:
  "generate_sex scripted example_practice rounded_registration_draws
     = (FEMALE, tl rounded_registration_draws)"
  by (simp add: rounded_registration_draws_def generate_sex_def scripted_def next_value_def
        example_practice_def)

lemma rounded_ethnicity:
  "generate_ethnicity scripted example_practice (tl rounded_registration_draws)
     = (Inr WHITE, drop 3 rounded_registration_draws)"
  by (simp add: rounded_registration_draws_def generate_ethnicity_def scripted_def
        next_value_def example_practice_def by_name_white)

lemma rounded_birth_date:
  "generate_birth_date scripted example_practice (drop 3 rounded_registration_draws)
     = (4483, drop 5 rounded_registration_draws)"
  by (simp add: rounded_registration_draws_def generate_birth_date_def scripted_def
        next_value_def example_practice_def py_int_def)

lemma rounded_registration_date:
  "generate_registration_date scripted example_practice 4483
     (drop 5 rounded_registration_draws) = (4483, drop 7 rounded_registration_draws)"
  by (simp add: rounded_registration_draws_def generate_registration_date_def scripted_def
        next_value_def example_practice_def py_round_def)

lemma rounded_transfer_date:
  "generate_transfer_date scripted example_practice 4483 4483
     (drop 7 rounded_registration_draws) = (None, [])"
  by (simp add: rounded_registration_draws_def generate_transfer_date_def scripted_def
        next_value_def example_practice_def)

lemma rounded_death_date:
  "generate_death_date example_practice 4483 None = None"
  by (simp add: generate_death_date_def example_practice_def py_int_def)

lemma rounded_patient_rejected:
  "create_patient scripted example_practice 0 rounded_registration_draws
     = (Inl (ValueError ''Birth date must be before registration date''), [])"
  by (simp add: create_patient_def example_patient_id rounded_sex rounded_ethnicity
        rounded_birth_date rounded_registration_date rounded_transfer_date rounded_death_date
        Patient_post_init_def)

subsection \<open>The dates of a patient\<close>

lemma py_round_at_least: "of_int n \<le> x \<Longrightarrow> n \<le> py_round x"
proof -
  assume "of_int n \<le> x"
  then have "n \<le> \<lfloor>x\<rfloor>" by (simp add: le_floor_iff)
  moreover have "\<lfloor>x\<rfloor> \<le> py_round x"
    by (simp add: py_round_def Let_def)
  ultimately show ?thesis by simp
qed

lemma generate_registration_date_not_before_birth:
  assumes "np_random_uniform R (max 0 (earliest_registration (registration_dates practice)))
             (latest_registration (registration_dates practice)) g = (r, g1)"
    and "np_random_uniform R 0 (5 * 365.25) g1 = (d, g2)" and "0 \<le> d"
  shows "birth \<le> fst (generate_registration_date R practice birth g)"
proof (cases "of_int birth \<ge> r")
  case True
  with assms have "generate_registration_date R practice birth g
    = (py_round (of_int birth + d), g2)"
    by (simp add: generate_registration_date_def)
  moreover from assms have "birth \<le> py_round (of_int birth + d)"
    by (intro py_round_at_least) simp
  ultimately show ?thesis by simp
next
  case False
  with assms have "generate_registration_date R practice birth g = (py_round r, g1)"
    by (simp add: generate_registration_date_def)
  moreover from False have "birth \<le> py_round r"
    by (intro py_round_at_least) simp
  ultimately show ?thesis by simp
qed

text \<open>
  C3. The registration date is meant to fall after the birth date, and the constructor of
  the patient requires it. But the date is rounded to a whole day last: an override of less
  than half a day after the birth date, or a sampled date less than half a day after it,
  rounds to the birth date itself, and \<open>create_patient\<close> then raises.
\<close>

theorem registration_date_rounds_to_birth_date:
  "generate_registration_date scripted example_practice 4483 [3000, 0.25] = (4483, [])
   \<and> generate_registration_date scripted example_practice 4483 [4483.25] = (4483, [])
   \<and> create_patient scripted example_practice 0 rounded_registration_draws
       = (Inl (ValueError ''Birth date must be before registration date''), [])"
proof -
  have "generate_registration_date scripted example_practice 4483 [3000, 0.25] = (4483, [])"
    by (simp add: generate_registration_date_def scripted_def next_value_def
          example_practice_def py_round_def)
  moreover
  have "generate_registration_date scripted example_practice 4483 [4483.25] = (4483, [])"
    by (simp add: generate_registration_date_def scripted_def next_value_def
          example_practice_def py_round_def)
  ultimately show ?thesis
    using rounded_patient_rejected by (intro conjI)
qed

text \<open>
  C8. When the transfer draw triggers, a transfer date is recorded exactly when the
  registration date plus the gap is at most the latest registration date of the practice
  and greater than the larger of 11323 and birth date + 18 * 365.25 + 7 + buffer; the
  date recorded is that sum rounded, and otherwise the result is \<open>None\<close>. The generator
  has no exception.
\<close>

theorem generate_transfer_date_eligibility:
  "np_random_random R g = (u, g1)
   \<and> u < transfer_probability (transfer_params practice)
   \<and> np_random_uniform R (minimum_gap (transfer_params practice))
         (maximum_gap (transfer_params practice)) g1 = (gap, g2)
   \<and> np_random_uniform R 0 60 g2 = (buffer, g3)
   \<longrightarrow>
     generate_transfer_date R practice birth reg g
       = (if of_int reg + gap \<le> latest_registration (registration_dates practice)
             \<and> of_int reg + gap > max 11323 (of_int birth + 18 * 365.25 + 7 + buffer)
          then Some (py_round (of_int reg + gap)) else None, g3)
     \<and> ((fst (generate_transfer_date R practice birth reg g) \<noteq> None)
          = (of_int reg + gap \<le> latest_registration (registration_dates practice)
             \<and> of_int reg + gap > max 11323 (of_int birth + 18 * 365.25 + 7 + buffer)))"
proof
  assume draws: "np_random_random R g = (u, g1)
   \<and> u < transfer_probability (transfer_params practice)
   \<and> np_random_uniform R (minimum_gap (transfer_params practice))
         (maximum_gap (transfer_params practice)) g1 = (gap, g2)
   \<and> np_random_uniform R 0 60 g2 = (buffer, g3)"
  then have result: "generate_transfer_date R practice birth reg g
       = (if of_int reg + gap \<le> latest_registration (registration_dates practice)
             \<and> of_int reg + gap > max 11323 (of_int birth + 18 * 365.25 + 7 + buffer)
          then Some (py_round (of_int reg + gap)) else None, g3)"
    by (simp add: generate_transfer_date_def Let_def)
  have "(fst (generate_transfer_date R practice birth reg g) \<noteq> None)
          = (of_int reg + gap \<le> latest_registration (registration_dates practice)
             \<and> of_int reg + gap > max 11323 (of_int birth + 18 * 365.25 + 7 + buffer))"
    unfolding result by simp
  with result show "generate_transfer_date R practice birth reg g
       = (if of_int reg + gap \<le> latest_registration (registration_dates practice)
             \<and> of_int reg + gap > max 11323 (of_int birth + 18 * 365.25 + 7 + buffer)
          then Some (py_round (of_int reg + gap)) else None, g3)
     \<and> ((fst (generate_transfer_date R practice birth reg g) \<noteq> None)
          = (of_int reg + gap \<le> latest_registration (registration_dates practice)
             \<and> of_int reg + gap > max 11323 (of_int birth + 18 * 365.25 + 7 + buffer)))"
    by (rule conjI)
qed

theorem generate_transfer_date_eligibility_witness:
  "generate_transfer_date scripted example_practice (-21522) 5000 [0.1, 12000, 30]
      = (Some 17000, [])
   \<and> generate_transfer_date scripted example_practice (-21522) 5000 [0.1, 20000, 30]
      = (None, [])"
proof -
  have draws: "np_random_random scripted [0.1, x, 30] = (0.1, [x, 30])
      \<and> 0.1 < transfer_probability (transfer_params example_practice)
      \<and> np_random_uniform scripted (minimum_gap (transfer_params example_practice))
          (maximum_gap (transfer_params example_practice)) [x, 30] = (x, [30])
      \<and> np_random_uniform scripted 0 60 [30] = (30, [])" for x :: real
    by (simp add: scripted_def next_value_def example_practice_def)
  have latest: "latest_registration (registration_dates example_practice) = 20900"
    by (simp add: example_practice_def)
  from generate_transfer_date_eligibility
      [of scripted "[0.1, 12000, 30]" "0.1" "[12000, 30]" example_practice 12000 "[30]" 30 "[]"
        "-21522" 5000] draws [of 12000]
  have "generate_transfer_date scripted example_practice (-21522) 5000 [0.1, 12000, 30]
       = (if real_of_int 5000 + 12000 \<le> latest_registration (registration_dates example_practice)
             \<and> real_of_int 5000 + 12000 > max 11323 (real_of_int (-21522) + 18 * 365.25 + 7 + 30)
          then Some (py_round (real_of_int 5000 + 12000)) else None, [])"
    by (metis (no_types))
  then have accepted:
    "generate_transfer_date scripted example_practice (-21522) 5000 [0.1, 12000, 30]
      = (Some 17000, [])"
    by (simp add: latest py_round_def)
  from generate_transfer_date_eligibility
      [of scripted "[0.1, 20000, 30]" "0.1" "[20000, 30]" example_practice 20000 "[30]" 30 "[]"
        "-21522" 5000] draws [of 20000]
  have "generate_transfer_date scripted example_practice (-21522) 5000 [0.1, 20000, 30]
       = (if real_of_int 5000 + 20000 \<le> latest_registration (registration_dates example_practice)
             \<and> real_of_int 5000 + 20000 > max 11323 (real_of_int (-21522) + 18 * 365.25 + 7 + 30)
          then Some (py_round (real_of_int 5000 + 20000)) else None, [])"
    by (metis (no_types))
  then have "generate_transfer_date scripted example_practice (-21522) 5000 [0.1, 20000, 30]
      = (None, [])"
    by (simp add: latest)
  with accepted show ?thesis
    by (rule conjI)
qed

lemma generate_transfer_date_not_triggered:
  "np_random_random R g = (u, g1) \<Longrightarrow> \<not> u < transfer_probability (transfer_params practice)
     \<Longrightarrow> generate_transfer_date R practice birth reg g = (None, g1)"
  by (simp add: generate_transfer_date_def)

lemma generate_death_date_not_after_transfer:
  "generate_death_date practice birth (Some t) = Some d \<Longrightarrow> d \<le> t"
  by (simp add: generate_death_date_def Let_def split: if_splits)

lemma Patient_with_both_dates:
  assumes "birth_date p < registration_date p"
    and "transfer_date p = Some t" and "t \<noteq> 0" and "registration_date p < t"
    and "death_date p = Some d" and "d \<noteq> 0" and "birth_date p < d"
  shows "Patient_post_init p
    = (if d \<le> t then Inl (ValueError ''Death date must be before transfer date'') else Inr p)"
  using assms by (simp add: Patient_post_init_def truthy_def)

text \<open>
  C1. The factory records a death date beside a transfer date only when the death is not
  after the transfer, and the message of the constructor says the death must be before the
  transfer; but the constructor raises exactly then, and accepts a death after the
  transfer. So \<open>create_patient\<close> raises for every patient it gives both dates.
\<close>

theorem death_before_transfer_is_rejected:
  "generate_death_date example_practice (-21522) (Some 17000) = Some 16829
   \<and> Patient_post_init
        \<lparr>patient_id = 1001, patient_practice_id = 1, birth_date = -21522,
         registration_date = 5000, sex = FEMALE, ethnicity = WHITE,
         transfer_date = Some 17000, death_date = Some 16829\<rparr>
       = Inl (ValueError ''Death date must be before transfer date'')
   \<and> Patient_post_init
        \<lparr>patient_id = 1001, patient_practice_id = 1, birth_date = -21522,
         registration_date = 5000, sex = FEMALE, ethnicity = WHITE,
         transfer_date = Some 17000, death_date = Some 18000\<rparr>
       = Inr \<lparr>patient_id = 1001, patient_practice_id = 1, birth_date = -21522,
         registration_date = 5000, sex = FEMALE, ethnicity = WHITE,
         transfer_date = Some 17000, death_date = Some 18000\<rparr>
   \<and> create_patient scripted example_practice 0 early_birth_draws
       = (Inl (ValueError ''Death date must be before transfer date''), [])"
  using early_death_date early_patient_rejected
  by (simp add: Patient_post_init_def truthy_def)

section \<open>Seeding\<close>

text \<open>
  The constructor of the factory installs the generator state of its seed, whatever the
  state of the process-wide generator was before.
\<close>

lemma StandardPracticeFactory_init_seeds:
  "StandardPracticeFactory_init R seed config_path g
     = (load_config config_path, np_random_seed R seed)"
  by (simp add: StandardPracticeFactory_init_def)

end
